theory Spec2Isabelle
  imports Complex_Main
begin

section \<open>Python strings\<close>

text \<open>
  A Python \<open>str\<close> is modelled as a HOL \<open>string\<close>; a \<open>char\<close> stands for a code
  point in the range 0..255.  The whitespace of \<open>str.strip()\<close> and \<open>str.split()\<close>
  in that range is TAB, LF, VT, FF, CR, the separators 0x1C..0x1F, the space, NEL (0x85)
  and the no-break space (0xA0).
\<close>

definition py_isspace :: "char \<Rightarrow> bool" where
  "py_isspace c =
     (let n = (of_char c :: nat)
      in (9 \<le> n \<and> n \<le> 13) \<or> (28 \<le> n \<and> n \<le> 32) \<or> n = 133 \<or> n = 160)"

text \<open>\<open>s.strip(chars)\<close> and \<open>s.strip()\<close>: remove from both ends.\<close>

definition strip_where :: "(char \<Rightarrow> bool) \<Rightarrow> string \<Rightarrow> string" where
  "strip_where P s = rev (dropWhile P (rev (dropWhile P s)))"

definition py_strip :: "string \<Rightarrow> string" where
  "py_strip s = strip_where py_isspace s"

definition py_strip_chars :: "string \<Rightarrow> string \<Rightarrow> string" where
  "py_strip_chars chars s = strip_where (\<lambda>c. c \<in> set chars) s"

text \<open>\<open>s.split(sep)\<close> for a one-character separator: always at least one piece.\<close>

fun py_split_on :: "char \<Rightarrow> string \<Rightarrow> string list" where
  "py_split_on sep [] = [[]]"
| "py_split_on sep (c # cs) =
     (if c = sep then [] # py_split_on sep cs
      else (case py_split_on sep cs of
              [] \<Rightarrow> [[c]]
            | p # ps \<Rightarrow> (c # p) # ps))"

text \<open>
  \<open>s.split()\<close>: the maximal runs of non-whitespace characters.  The first argument
  is the token being read.
\<close>

fun split_ws :: "string \<Rightarrow> string \<Rightarrow> string list" where
  "split_ws cur [] = (if cur = [] then [] else [cur])"
| "split_ws cur (c # cs) =
     (if py_isspace c
      then (if cur = [] then split_ws [] cs else cur # split_ws [] cs)
      else split_ws (cur @ [c]) cs)"

definition py_split :: "string \<Rightarrow> string list" where
  "py_split s = split_ws [] s"

text \<open>\<open>needle in hay\<close> on strings: \<open>needle\<close> occurs as a contiguous substring.\<close>

fun starts_with :: "string \<Rightarrow> string \<Rightarrow> bool" where
  "starts_with [] hay = True"
| "starts_with (n # ns) [] = False"
| "starts_with (n # ns) (h # hs) = (n = h \<and> starts_with ns hs)"

fun py_in :: "string \<Rightarrow> string \<Rightarrow> bool" where
  "py_in needle [] = (needle = [])"
| "py_in needle (h # hs) = (starts_with needle (h # hs) \<or> py_in needle hs)"

section \<open>Python numbers\<close>

text \<open>
  A Python \<open>int\<close> is an \<open>int\<close> (a \<open>nat\<close> where the value is a count).  A finite
  Python \<open>float\<close> is a binary fraction, hence a rational number: it is modelled by its
  exact value in \<open>rat\<close>.  The float operations of the source are written with their
  rounding where they round (\<open>py_float\<close>, \<open>format_f\<close>); division by \<open>1024.0\<close>,
  \<open>//\<close> and \<open>%\<close> are exact on the values they receive here (values of at least
  1024, respectively non-negative values below \<open>2 ^ 53\<close>).
\<close>

definition digit_char :: "nat \<Rightarrow> char" where
  "digit_char d = ''0123456789'' ! d"

text \<open>\<open>str(n)\<close> for an integer.\<close>

fun show_nat :: "nat \<Rightarrow> string" where
  "show_nat n =
     (if n < 10 then [digit_char n] else show_nat (n div 10) @ [digit_char (n mod 10)])"

declare show_nat.simps [simp del]

definition show_int :: "int \<Rightarrow> string" where
  "show_int i = (if i < 0 then CHR ''-'' # show_nat (nat (- i)) else show_nat (nat i))"

text \<open>Rounding to the nearest integer, ties to the even one.\<close>

definition round_half_even :: "rat \<Rightarrow> int" where
  "round_half_even y =
     (let f = \<lfloor>y\<rfloor>; r = y - of_int f
      in if r < 1 / 2 then f
         else if 1 / 2 < r then f + 1
         else if even f then f else f + 1)"

text \<open>
  The format specification \<open>.df\<close> of an f-string: the decimal expansion with \<open>d\<close>
  fractional digits that is nearest to the exact value, ties to even, the sign kept.
\<close>

definition format_f :: "nat \<Rightarrow> rat \<Rightarrow> string" where
  "format_f d x =
     (let q = nat (round_half_even (\<bar>x\<bar> * 10 ^ d));
          ip = q div 10 ^ d;
          fp = show_nat (q mod 10 ^ d)
      in (if x < 0 then [CHR ''-''] else []) @ show_nat ip @
         (if d = 0 then [] else [CHR ''.''] @ replicate (d - length fp) CHR ''0'' @ fp))"

text \<open>\<open>n.bit_length()\<close>.\<close>

fun bit_length :: "nat \<Rightarrow> nat" where
  "bit_length n = (if n = 0 then 0 else Suc (bit_length (n div 2)))"

declare bit_length.simps [simp del]

text \<open>\<open>x // y\<close>, \<open>x % y\<close> and \<open>int(x)\<close> on floats.\<close>

definition py_floordiv :: "rat \<Rightarrow> rat \<Rightarrow> rat" where
  "py_floordiv x y = of_int \<lfloor>x / y\<rfloor>"

definition py_mod :: "rat \<Rightarrow> rat \<Rightarrow> rat" where
  "py_mod x y = x - y * of_int \<lfloor>x / y\<rfloor>"

definition py_int :: "rat \<Rightarrow> int" where
  "py_int x = (if x < 0 then \<lceil>x\<rceil> else \<lfloor>x\<rfloor>)"

text \<open>\<open>sep.join(parts)\<close>.\<close>

fun py_join :: "string \<Rightarrow> string list \<Rightarrow> string" where
  "py_join sep [] = []"
| "py_join sep [p] = p"
| "py_join sep (p # q # ps) = p @ sep @ py_join sep (q # ps)"

section \<open>Exceptions\<close>

text \<open>
  An exception carries its class and the text \<open>str(e)\<close>.  All the classes below
  derive from \<open>Exception\<close>.
\<close>

datatype exn_class =
  NoSuchProcess | AccessDenied | OverflowError | ValueError | OtherException

datatype exn = Exn (exn_cls: exn_class) (exn_str: string)

text \<open>Sequencing of statements that may raise.\<close>

definition and_then :: "exn + 'a \<Rightarrow> ('a \<Rightarrow> exn + 'b) \<Rightarrow> exn + 'b" where
  "and_then m f = (case m of Inl e \<Rightarrow> Inl e | Inr x \<Rightarrow> f x)"

text \<open>
  The conversion of an \<open>int\<close> to a \<open>float\<close>: exact up to 53 bits, otherwise rounded
  to 53 significant bits, ties to even; \<open>OverflowError\<close> beyond the largest double.
\<close>

definition py_float :: "nat \<Rightarrow> exn + rat" where
  "py_float n =
     (if bit_length n \<le> 53 then Inr (of_nat n)
      else (let e = bit_length n - 53;
                x = of_int (round_half_even (of_nat n / 2 ^ e)) * 2 ^ e
            in if 2 ^ 1024 \<le> x
               then Inl (Exn OverflowError ''int too large to convert to float'')
               else Inr x))"

section \<open>Formatting\<close>

text \<open>
  \<open>format_bytes\<close>.  The argument is a byte count of psutil, a non-negative \<open>int\<close>.
  On the first round of the loop \<open>bytes\<close> is still that \<open>int\<close>: the comparison with
  \<open>1024.0\<close> is exact, and both the f-string and \<open>bytes /= 1024.0\<close> convert it to a
  float.  From then on it is a float, which \<open>format_bytes_from\<close> carries through the
  remaining units.
\<close>

fun format_bytes_from :: "string list \<Rightarrow> rat \<Rightarrow> string" where
  "format_bytes_from [] b = format_f 1 b @ ''PB''"
| "format_bytes_from (unit # units) b =
     (if b < 1024 then format_f 1 b @ unit else format_bytes_from units (b / 1024))"

definition format_bytes :: "nat \<Rightarrow> exn + string" where
  "format_bytes bytes =
     and_then (py_float bytes) (\<lambda>x.
       if bytes < 1024 then Inr (format_f 1 x @ ''B'')
       else Inr (format_bytes_from [''KB'', ''MB'', ''GB'', ''TB''] (x / 1024)))"

text \<open>\<open>format_uptime\<close>; the argument is a float.\<close>

definition format_uptime :: "rat \<Rightarrow> string" where
  "format_uptime seconds =
     (let days = py_floordiv seconds 86400;
          hours = py_floordiv (py_mod seconds 86400) 3600;
          minutes = py_floordiv (py_mod seconds 3600) 60
      in show_int (py_int days) @ ''d '' @ show_int (py_int hours) @ ''h '' @
         show_int (py_int minutes) @ ''m'')"

section \<open>Service status\<close>

record service_status =
  name :: string
  active :: string
  sub :: string

text \<open>
  The body of the \<open>for line in output.split('\n')\<close> loop of \<open>get_service_status\<close>:
  the state is the pair \<open>(active, sub)\<close>.
\<close>

definition status_line :: "string \<times> string \<Rightarrow> string \<Rightarrow> string \<times> string" where
  "status_line st line0 =
     (let line = py_strip line0
      in if py_in ''Active:'' line
         then (let parts = py_split line
               in if length parts \<ge> 2
                  then (if length parts \<ge> 3
                        then (parts ! 1, py_strip_chars ''()'' (parts ! 2))
                        else (parts ! 1, snd st))
                  else st)
         else st)"

definition parse_status :: "string \<Rightarrow> string \<times> string" where
  "parse_status output =
     foldl status_line (''unknown'', ''unknown'') (py_split_on CHR 0x0A output)"

text \<open>
  \<open>get_service_status\<close>.  The first argument stands for \<open>subprocess.run\<close> with
  captured text output and a timeout: given the argument vector, it raises (timeout,
  missing binary, ...) or gives \<open>result.stdout\<close>.
\<close>

type_synonym subprocess = "string list \<Rightarrow> exn + string"

definition get_service_status :: "subprocess \<Rightarrow> string \<Rightarrow> service_status" where
  "get_service_status subprocess_run service_name =
     (case subprocess_run [''systemctl'', ''status'', service_name] of
        Inr output \<Rightarrow>
          (let (a, s) = parse_status output
           in \<lparr>name = service_name, active = a, sub = s\<rparr>)
      | Inl e \<Rightarrow>
          \<lparr>name = service_name, active = ''error'', sub = take 20 (exn_str e)\<rparr>)"

section \<open>Logs\<close>

text \<open>
  \<open>get_service_logs\<close> returns the text and the list of the argument vectors it has
  passed to \<open>subprocess.run\<close>.
\<close>

definition get_service_logs :: "subprocess \<Rightarrow> string \<Rightarrow> int \<Rightarrow> string \<times> string list list" where
  "get_service_logs subprocess_run service_name lines =
     (let argv = [''journalctl'', ''-u'', service_name, ''-n'', show_int lines, ''--no-pager'']
      in (case subprocess_run argv of
            Inr output \<Rightarrow> output
          | Inl e \<Rightarrow> ''Error fetching logs: '' @ exn_str e,
          [argv]))"

record log_result =
  service :: string
  logs :: string

text \<open>
  \<open>api_logs\<close>, the function that the route \<open>/api/logs/<service_name>\<close> runs once
  \<open>requires_auth\<close> has let the request through.  \<open>lines_arg\<close> is the query
  parameter \<open>lines\<close> read with \<open>type=int\<close>: \<open>None\<close> when it is absent or not an
  integer.  The result is the JSON body and the external calls made.
\<close>

definition api_logs ::
  "subprocess \<Rightarrow> string list \<Rightarrow> string \<Rightarrow> int option \<Rightarrow> log_result \<times> string list list" where
  "api_logs subprocess_run SERVICES service_name lines_arg =
     (let lines = (case lines_arg of None \<Rightarrow> 100 | Some n \<Rightarrow> n);
          (logs, calls) = get_service_logs subprocess_run service_name lines
      in if service_name \<in> set SERVICES
         then (\<lparr>service = service_name, logs = logs\<rparr>, calls)
         else (\<lparr>service = ''not allowed'', logs = ''not allowed''\<rparr>, calls))"

section \<open>System data\<close>

text \<open>
  \<open>float(s)\<close> on the literals that reach it here: an optional minus sign, then digits
  with at most one point among them and at least one digit.  Everything else is reported
  as \<open>ValueError\<close>.  The key of the sort is this value rather than the double next
  to it; the rounding of \<open>float\<close> keeps the order of one-decimal values below \<open>2 ^ 48\<close>.
\<close>

definition digit_of :: "char \<Rightarrow> nat option" where
  "digit_of c =
     (let n = (of_char c :: nat) in if 48 \<le> n \<and> n \<le> 57 then Some (n - 48) else None)"

fun digits_val :: "nat \<Rightarrow> string \<Rightarrow> nat option" where
  "digits_val acc [] = Some acc"
| "digits_val acc (c # cs) =
     (case digit_of c of None \<Rightarrow> None | Some d \<Rightarrow> digits_val (10 * acc + d) cs)"

definition value_error :: "string \<Rightarrow> exn" where
  "value_error s = Exn ValueError (''could not convert string to float: '' @ s)"

definition py_float_of_str :: "string \<Rightarrow> exn + rat" where
  "py_float_of_str s =
     (let neg = (s \<noteq> [] \<and> hd s = CHR ''-'');
          body = (if neg then tl s else s);
          ip = takeWhile (\<lambda>c. c \<noteq> CHR ''.'') body;
          fp = drop 1 (dropWhile (\<lambda>c. c \<noteq> CHR ''.'') body)
      in if ip = [] \<and> fp = [] then Inl (value_error s)
         else (case (digits_val 0 ip, digits_val 0 fp) of
                 (Some i, Some f) \<Rightarrow>
                   (let v = of_nat i + of_nat f / 10 ^ length fp
                    in Inr (if neg then - v else v))
               | _ \<Rightarrow> Inl (value_error s)))"

text \<open>
  One entry of \<open>psutil.process_iter([...])\<close> is read inside \<open>try\<close>: the reading
  raises, or gives the \<open>info\<close> dictionary.
\<close>

record proc_info =
  info_pid :: int
  info_name :: string
  info_cpu_percent :: rat
  info_memory_percent :: rat
  info_username :: string

text \<open>The dictionary appended to \<open>top_processes\<close>; \<open>proc_name\<close> is its key \<open>name\<close>.\<close>

record process_sample =
  pid :: int
  proc_name :: string
  cpu :: string
  mem :: string
  user :: string

definition sample_of :: "proc_info \<Rightarrow> process_sample" where
  "sample_of info =
     \<lparr>pid = info_pid info,
      proc_name = take 30 (info_name info),
      cpu = format_f 1 (info_cpu_percent info) @ ''%'',
      mem = format_f 1 (info_memory_percent info) @ ''%'',
      user = take 15 (info_username info)\<rparr>"

text \<open>
  The loop over the processes: \<open>NoSuchProcess\<close> and \<open>AccessDenied\<close> are passed
  over, any other exception leaves the loop.
\<close>

fun collect_processes ::
  "(exn + proc_info) list \<Rightarrow> process_sample list \<Rightarrow> exn + process_sample list" where
  "collect_processes [] tops = Inr tops"
| "collect_processes (proc # procs) tops =
     (case proc of
        Inr info \<Rightarrow> collect_processes procs (tops @ [sample_of info])
      | Inl e \<Rightarrow>
          if exn_cls e = NoSuchProcess \<or> exn_cls e = AccessDenied
          then collect_processes procs tops
          else Inl e)"

text \<open>The key function \<open>lambda x: float(x['cpu'].strip('%'))\<close>.\<close>

definition cpu_key :: "process_sample \<Rightarrow> exn + rat" where
  "cpu_key x = py_float_of_str (py_strip_chars ''%'' (cpu x))"

text \<open>
  \<open>sorted(xs, key=k, reverse=True)\<close>: the keys are computed first, one per element
  and in order; the sort is by descending key and stable.
\<close>

fun with_keys :: "('a \<Rightarrow> exn + rat) \<Rightarrow> 'a list \<Rightarrow> exn + (rat \<times> 'a) list" where
  "with_keys k [] = Inr []"
| "with_keys k (x # xs) =
     and_then (k x) (\<lambda>v. and_then (with_keys k xs) (\<lambda>kxs. Inr ((v, x) # kxs)))"

definition py_sorted_reverse :: "('a \<Rightarrow> exn + rat) \<Rightarrow> 'a list \<Rightarrow> exn + 'a list" where
  "py_sorted_reverse k xs =
     and_then (with_keys k xs) (\<lambda>kxs. Inr (map snd (sort_key (\<lambda>kx. - fst kx) kxs)))"

definition top_processes_of :: "(exn + proc_info) list \<Rightarrow> exn + process_sample list" where
  "top_processes_of procs =
     and_then (collect_processes procs []) (\<lambda>tops.
     and_then (py_sorted_reverse cpu_key tops) (\<lambda>sorted_tops.
     Inr (take 10 sorted_tops)))"

text \<open>The results of psutil that the snapshot reads.\<close>

record svmem =
  vm_total :: nat
  vm_used :: nat
  vm_available :: nat
  vm_percent :: rat

record sdiskusage =
  du_total :: nat
  du_used :: nat
  du_free :: nat
  du_percent :: rat

record snetio =
  bytes_sent :: nat
  bytes_recv :: nat

text \<open>
  The host as \<open>get_system_data\<close> sees it: every call of psutil raises or gives its
  value; \<open>time_time\<close> is \<open>time.time()\<close> and \<open>datetime_now\<close> is
  \<open>datetime.now().strftime('%Y-%m-%d %H:%M:%S')\<close>.
\<close>

record host =
  psutil_cpu_percent :: "exn + rat"
  psutil_cpu_count :: "exn + nat option"
  psutil_getloadavg :: "exn + rat \<times> rat \<times> rat"
  psutil_virtual_memory :: "exn + svmem"
  psutil_disk_usage :: "string \<Rightarrow> exn + sdiskusage"
  psutil_net_io_counters :: "exn + snetio"
  time_time :: rat
  psutil_boot_time :: "exn + rat"
  psutil_process_iter :: "exn + (exn + proc_info) list"
  datetime_now :: string

record snapshot =
  timestamp :: string
  cpu_percent :: rat
  cpu_count :: "nat option"
  load_avg :: string
  mem_total :: string
  mem_used :: string
  mem_available :: string
  mem_percent :: rat
  disk_total :: string
  disk_used :: string
  disk_free :: string
  disk_percent :: rat
  net_sent :: string
  net_recv :: string
  uptime :: string
  services :: "service_status list"
  top_processes :: "process_sample list"

definition get_system_data :: "host \<Rightarrow> subprocess \<Rightarrow> string list \<Rightarrow> exn + snapshot" where
  "get_system_data h subprocess_run SERVICES =
     and_then (psutil_cpu_percent h) (\<lambda>cpu_percent'.
     and_then (psutil_cpu_count h) (\<lambda>cpu_count'.
     and_then (psutil_getloadavg h) (\<lambda>(l1, l5, l15).
     let load_avg' = py_join '', '' (map (format_f 2) [l1, l5, l15]) in
     and_then (psutil_virtual_memory h) (\<lambda>m.
     and_then (format_bytes (vm_total m)) (\<lambda>mem_total'.
     and_then (format_bytes (vm_used m)) (\<lambda>mem_used'.
     and_then (format_bytes (vm_available m)) (\<lambda>mem_available'.
     and_then (psutil_disk_usage h ''/'') (\<lambda>disk.
     and_then (format_bytes (du_total disk)) (\<lambda>disk_total'.
     and_then (format_bytes (du_used disk)) (\<lambda>disk_used'.
     and_then (format_bytes (du_free disk)) (\<lambda>disk_free'.
     and_then (psutil_net_io_counters h) (\<lambda>net.
     and_then (format_bytes (bytes_sent net)) (\<lambda>net_sent'.
     and_then (format_bytes (bytes_recv net)) (\<lambda>net_recv'.
     and_then (psutil_boot_time h) (\<lambda>boot.
     let uptime' = format_uptime (time_time h - boot);
         services' = map (get_service_status subprocess_run) SERVICES in
     and_then (psutil_process_iter h) (\<lambda>procs.
     and_then (top_processes_of procs) (\<lambda>top_processes'.
     Inr \<lparr>timestamp = datetime_now h,
          cpu_percent = cpu_percent',
          cpu_count = cpu_count',
          load_avg = load_avg',
          mem_total = mem_total',
          mem_used = mem_used',
          mem_available = mem_available',
          mem_percent = vm_percent m,
          disk_total = disk_total',
          disk_used = disk_used',
          disk_free = disk_free',
          disk_percent = du_percent disk,
          net_sent = net_sent',
          net_recv = net_recv',
          uptime = uptime',
          services = services',
          top_processes = top_processes'\<rparr>)))))))))))))))))"

section \<open>Notions used in the statements\<close>

text \<open>The lines of a status text that the loop of \<open>get_service_status\<close> acts on.\<close>

definition has_marker :: "string \<Rightarrow> bool" where
  "has_marker line = py_in ''Active:'' (py_strip line)"

definition marker_lines :: "string \<Rightarrow> string list" where
  "marker_lines output = filter has_marker (py_split_on CHR 0x0A output)"

text \<open>
  The reading of one line as the specification words it: split on whitespace, the second
  token is the active state, the third token, if present, without its surrounding
  parentheses is the sub state (\<open>unknown\<close> otherwise).
\<close>

definition status_of_line :: "string \<Rightarrow> string \<times> string" where
  "status_of_line line =
     (let parts = py_split line
      in (parts ! 1,
          if length parts \<ge> 3 then py_strip_chars ''()'' (parts ! 2) else ''unknown''))"

text \<open>
  The unit that the specification selects for a byte count: the first of B, KB, MB, GB,
  TB at which the count divided by the unit is below 1024, and PB if there is none.
\<close>

definition spec_units :: "string list" where
  "spec_units = [''B'', ''KB'', ''MB'', ''GB'', ''TB'', ''PB'']"

definition spec_unit_index :: "nat \<Rightarrow> nat" where
  "spec_unit_index n =
     (case find (\<lambda>k. (of_nat n :: rat) / 1024 ^ k < 1024) [0, 1, 2, 3, 4] of
        Some k \<Rightarrow> k
      | None \<Rightarrow> 5)"

text \<open>The processes whose reading does not raise, and the CPU value that is displayed.\<close>

fun visible :: "(exn + proc_info) list \<Rightarrow> proc_info list" where
  "visible [] = []"
| "visible (Inr info # procs) = info # visible procs"
| "visible (Inl e # procs) = visible procs"

definition tenths :: "rat \<Rightarrow> rat" where
  "tenths x =
     (let v = of_int (round_half_even (\<bar>x\<bar> * 10)) / 10 in if x < 0 then - v else v)"

definition shown_cpu :: "proc_info \<Rightarrow> rat" where
  "shown_cpu info = tenths (info_cpu_percent info)"


definition uncaught :: "exn + proc_info \<Rightarrow> bool" where
  "uncaught proc =
     (case proc of
        Inl e \<Rightarrow> exn_cls e \<noteq> NoSuchProcess \<and> exn_cls e \<noteq> AccessDenied
      | Inr info \<Rightarrow> False)"

section \<open>Test data\<close>

definition example_info :: "int \<Rightarrow> rat \<Rightarrow> proc_info" where
  "example_info p c =
     \<lparr>info_pid = p,
      info_name = ''a-process-with-a-name-longer-than-thirty-characters'',
      info_cpu_percent = c,
      info_memory_percent = 1 / 3,
      info_username = ''a-user-name-longer-than-fifteen''\<rparr>"


definition example_run :: subprocess where
  "example_run argv =
     (if argv = [''systemctl'', ''status'', ''nginx'']
      then Inr (''nginx.service - web server'' @ [CHR 0x0A] @
                ''   Active: active (running) since Mon 2024-01-01'' @ [CHR 0x0A] @
                ''   Main PID: 812 (nginx)'' @ [CHR 0x0A])
      else if argv = [''systemctl'', ''status'', ''docker'']
      then Inr ''Unit docker.service could not be found.''
      else Inl (Exn OtherException ''Command timed out after 2 seconds''))"

definition example_host :: host where
  "example_host =
     \<lparr>psutil_cpu_percent = Inr (25 / 2),
      psutil_cpu_count = Inr (Some 4),
      psutil_getloadavg = Inr (1 / 2, 1 / 4, 1 / 8),
      psutil_virtual_memory =
        Inr \<lparr>vm_total = 8589934592, vm_used = 1536, vm_available = 1023, vm_percent = 40\<rparr>,
      psutil_disk_usage =
        (\<lambda>path. Inr \<lparr>du_total = 1099511627776, du_used = 1024, du_free = 0, du_percent = 1\<rparr>),
      psutil_net_io_counters = Inr \<lparr>bytes_sent = 1280, bytes_recv = 123456789\<rparr>,
      time_time = 1090061,
      psutil_boot_time = Inr 1000000,
      psutil_process_iter =
        Inr [Inr (example_info 1 (3 / 2)),
             Inl (Exn NoSuchProcess ''process no longer exists (pid=7)''),
             Inr (example_info 2 (7 / 4)),
             Inl (Exn AccessDenied ''(pid=9)'')],
      datetime_now = ''2024-01-01 12:00:00''\<rparr>"

text \<open>A host without the \<open>systemctl\<close> binary: every query raises.\<close>

definition failing_run :: subprocess where
  "failing_run argv = Inl (Exn OtherException ''[Errno 2] No such file or directory: systemctl'')"





section \<open>Properties\<close>

subsection \<open>Evaluation of strings and numbers\<close>

lemmas string_eval =
  py_strip_def strip_where_def py_isspace_def py_split_def py_strip_chars_def

lemma show_nat_digit: "n < 10 \<Longrightarrow> show_nat n = [digit_char n]"
  by (simp add: show_nat.simps)

lemma show_nat_more: "10 \<le> n \<Longrightarrow> show_nat n = show_nat (n div 10) @ [digit_char (n mod 10)]"
  by (subst show_nat.simps) simp

lemma show_int_nonneg: "0 \<le> k \<Longrightarrow> show_int k = show_nat (nat k)"
  by (simp add: show_int_def)

lemma floor_divide_int_pos:
  fixes x :: rat
  assumes b: "0 < b"
  shows "\<lfloor>x / of_int b\<rfloor> = \<lfloor>x\<rfloor> div b"
proof (rule floor_unique)
  have split: "\<lfloor>x\<rfloor> = \<lfloor>x\<rfloor> div b * b + \<lfloor>x\<rfloor> mod b"
    by simp
  have lo: "0 \<le> \<lfloor>x\<rfloor> mod b" and hi: "\<lfloor>x\<rfloor> mod b < b"
    using b by simp_all
  have q1: "\<lfloor>x\<rfloor> div b * b \<le> \<lfloor>x\<rfloor>"
    using split lo by linarith
  have "(\<lfloor>x\<rfloor> div b + 1) * b = \<lfloor>x\<rfloor> div b * b + b"
    by (simp add: algebra_simps)
  then have q2: "\<lfloor>x\<rfloor> + 1 \<le> (\<lfloor>x\<rfloor> div b + 1) * b"
    using split hi by linarith
  have "(of_int (\<lfloor>x\<rfloor> div b * b) :: rat) \<le> of_int \<lfloor>x\<rfloor>"
    using q1 by (simp only: of_int_le_iff)
  also have "\<dots> \<le> x"
    by simp
  finally have "(of_int (\<lfloor>x\<rfloor> div b) :: rat) * of_int b \<le> x"
    by simp
  then show "of_int (\<lfloor>x\<rfloor> div b) \<le> x / of_int b"
    using b by (simp add: pos_le_divide_eq)
  have "x < of_int (\<lfloor>x\<rfloor> + 1)"
    by linarith
  also have "\<dots> \<le> (of_int ((\<lfloor>x\<rfloor> div b + 1) * b) :: rat)"
    using q2 by (simp only: of_int_le_iff)
  finally have "x < (of_int (\<lfloor>x\<rfloor> div b) + 1) * of_int b"
    by simp
  then show "x / of_int b < of_int (\<lfloor>x\<rfloor> div b) + 1"
    using b by (simp add: pos_divide_less_eq)
qed

lemma floor_divide_numeral:
  fixes x :: rat
  shows "\<lfloor>x / numeral k\<rfloor> = \<lfloor>x\<rfloor> div numeral k"
  using floor_divide_int_pos [of "numeral k" x] by simp

lemma floor_rat_numeral_divide:
  "\<lfloor>numeral a / numeral b :: rat\<rfloor> = numeral a div numeral b"
  by (metis floor_divide_of_int_eq of_int_numeral)

lemmas format_eval =
  format_f_def round_half_even_def Let_def floor_rat_numeral_divide show_nat_digit show_nat_more
  digit_char_def

subsection \<open>Sequencing\<close>

lemma and_then_Inl_iff:
  "and_then m f = Inl e \<longleftrightarrow> m = Inl e \<or> (\<exists>x. m = Inr x \<and> f x = Inl e)"
  by (cases m) (simp_all add: and_then_def)

lemma and_then_Inr_iff:
  "and_then m f = Inr y \<longleftrightarrow> (\<exists>x. m = Inr x \<and> f x = Inr y)"
  by (cases m) (simp_all add: and_then_def)

subsection \<open>The logs endpoint\<close>

text \<open>
  C1.  A request for the logs of a service that is not in \<open>SERVICES\<close> is answered with
  the pair \<open>not allowed\<close>, but \<open>api_logs\<close> has by then run \<open>journalctl\<close> for that
  name: \<open>get_service_logs\<close> is called before the membership test.  With
  \<open>SERVICES = ['nginx', 'ssh']\<close> and the name \<open>evil\<close>, the list of external calls
  holds the \<open>journalctl\<close> invocation for \<open>evil\<close>.
\<close>

theorem api_logs_runs_journalctl_for_disallowed:
  "api_logs (\<lambda>argv. Inr ''log text'') [''nginx'', ''ssh''] ''evil'' None =
     (\<lparr>service = ''not allowed'', logs = ''not allowed''\<rparr>,
      [[''journalctl'', ''-u'', ''evil'', ''-n'', ''100'', ''--no-pager'']])"
  by (simp add: api_logs_def get_service_logs_def show_int_def show_nat.simps digit_char_def)

text \<open>
  C9.  For a service name that is not in \<open>SERVICES\<close> the body of the response is the
  constant pair \<open>service = not allowed\<close>, \<open>logs = not allowed\<close>, whatever the log
  query returns: two runs that differ only in the external command give the same body.
\<close>

theorem api_logs_not_allowed_constant:
  "service_name \<notin> set SERVICES \<Longrightarrow>
   fst (api_logs run1 SERVICES service_name lines_arg) =
     \<lparr>service = ''not allowed'', logs = ''not allowed''\<rparr> \<and>
   fst (api_logs run1 SERVICES service_name lines_arg) =
     fst (api_logs run2 SERVICES service_name lines_arg)"
  by (simp add: api_logs_def get_service_logs_def Let_def split: prod.split)

theorem api_logs_not_allowed_constant_witness:
  "''evil'' \<notin> set [''nginx'', ''ssh''] \<and>
   fst (api_logs (\<lambda>argv. Inr ''secret log line'') [''nginx'', ''ssh''] ''evil'' (Some 5)) =
     \<lparr>service = ''not allowed'', logs = ''not allowed''\<rparr> \<and>
   fst (api_logs (\<lambda>argv. Inr ''secret log line'') [''nginx'', ''ssh''] ''evil'' (Some 5)) =
     fst (api_logs (\<lambda>argv. Inl (Exn OtherException ''timed out''))
           [''nginx'', ''ssh''] ''evil'' (Some 5))"
proof -
  have h: "''evil'' \<notin> set [''nginx'', ''ssh'']" by simp
  show ?thesis
    by (rule conjI [OF h api_logs_not_allowed_constant [OF h]])
qed

subsection \<open>The status of one service\<close>

text \<open>
  C10.  For every service name, \<open>get_service_status\<close> returns a record of the three
  fields \<open>name\<close>, \<open>active\<close> and \<open>sub\<close> whose \<open>name\<close> is the name it was given,
  whether the external command gave output or raised.
\<close>

theorem get_service_status_name_field:
  "name (get_service_status subprocess_run service_name) = service_name \<and>
   get_service_status subprocess_run service_name =
     \<lparr>name = service_name,
      active = active (get_service_status subprocess_run service_name),
      sub = sub (get_service_status subprocess_run service_name)\<rparr>"
  by (simp add: get_service_status_def split: sum.split prod.split)

subsection \<open>The snapshot\<close>

lemma get_system_data_services:
  "get_system_data h subprocess_run SERVICES = Inr snap \<Longrightarrow>
   services snap = map (get_service_status subprocess_run) SERVICES"
  by (auto simp: get_system_data_def and_then_Inr_iff Let_def split: prod.splits)

lemma get_system_data_Inr_reads:
  "get_system_data h subprocess_run SERVICES = Inr snap \<Longrightarrow>
   \<not> isl (psutil_cpu_percent h) \<and> \<not> isl (psutil_cpu_count h) \<and>
   \<not> isl (psutil_getloadavg h) \<and> \<not> isl (psutil_virtual_memory h) \<and>
   \<not> isl (psutil_disk_usage h ''/'') \<and> \<not> isl (psutil_net_io_counters h) \<and>
   \<not> isl (psutil_boot_time h) \<and> \<not> isl (psutil_process_iter h)"
  by (auto simp: get_system_data_def and_then_Inr_iff Let_def split: prod.splits)

lemma get_system_data_independent:
  "map_sum id (\<lambda>s. ()) (get_system_data h run1 SERVICES) =
   map_sum id (\<lambda>s. ()) (get_system_data h run2 SERVICES)"
  unfolding get_system_data_def Let_def and_then_def
  by (simp split: sum.split prod.split)

text \<open>
  C6.  If one of the reads of the metrics (CPU, core count, load average, memory, disk,
  network, boot time, process enumeration) raises, \<open>get_system_data\<close> raises: there is
  no snapshot, partial or other.
\<close>

theorem get_system_data_fails_atomically:
  "isl (psutil_cpu_percent h) \<or> isl (psutil_cpu_count h) \<or> isl (psutil_getloadavg h) \<or>
   isl (psutil_virtual_memory h) \<or> isl (psutil_disk_usage h ''/'') \<or>
   isl (psutil_net_io_counters h) \<or> isl (psutil_boot_time h) \<or>
   isl (psutil_process_iter h) \<Longrightarrow>
   isl (get_system_data h subprocess_run SERVICES)"
proof (rule ccontr)
  assume reads: "isl (psutil_cpu_percent h) \<or> isl (psutil_cpu_count h) \<or>
    isl (psutil_getloadavg h) \<or> isl (psutil_virtual_memory h) \<or>
    isl (psutil_disk_usage h ''/'') \<or> isl (psutil_net_io_counters h) \<or>
    isl (psutil_boot_time h) \<or> isl (psutil_process_iter h)"
  assume "\<not> isl (get_system_data h subprocess_run SERVICES)"
  then obtain snap where "get_system_data h subprocess_run SERVICES = Inr snap"
    by (cases "get_system_data h subprocess_run SERVICES") simp_all
  from get_system_data_Inr_reads [OF this] reads show False
    by blast
qed

theorem get_system_data_fails_atomically_witness:
  "isl (psutil_disk_usage
          (example_host\<lparr>psutil_disk_usage := \<lambda>path. Inl (Exn OtherException ''No such file'')\<rparr>)
          ''/'') \<and>
   isl (get_system_data
          (example_host\<lparr>psutil_disk_usage := \<lambda>path. Inl (Exn OtherException ''No such file'')\<rparr>)
          example_run [''nginx'', ''ssh'', ''docker''])"
proof -
  have h: "isl (psutil_disk_usage
          (example_host\<lparr>psutil_disk_usage := \<lambda>path. Inl (Exn OtherException ''No such file'')\<rparr>)
          ''/'')"
    by simp
  then have "isl (get_system_data
          (example_host\<lparr>psutil_disk_usage := \<lambda>path. Inl (Exn OtherException ''No such file'')\<rparr>)
          example_run [''nginx'', ''ssh'', ''docker''])"
    by (intro get_system_data_fails_atomically) blast
  with h show ?thesis
    by (rule conjI)
qed

text \<open>
  C2.  In every snapshot that \<open>get_system_data\<close> builds, the \<open>services\<close> field has
  one entry per element of \<open>SERVICES\<close>, in the order of \<open>SERVICES\<close> and with the
  same names, whatever the status queries gave.
\<close>

theorem get_system_data_services_order:
  "get_system_data h subprocess_run SERVICES = Inr snap \<Longrightarrow>
   length (services snap) = length SERVICES \<and> map name (services snap) = SERVICES"
proof -
  assume "get_system_data h subprocess_run SERVICES = Inr snap"
  then have "services snap = map (get_service_status subprocess_run) SERVICES"
    by (rule get_system_data_services)
  moreover have "map name (map (get_service_status subprocess_run) SERVICES) = SERVICES"
    by (induction SERVICES) (simp_all add: get_service_status_def split: sum.split prod.split)
  ultimately show ?thesis
    by simp
qed

lemma status_line_no_marker: "\<not> has_marker l \<Longrightarrow> status_line st l = st"
  by (simp add: status_line_def has_marker_def)

lemma status_line_marker:
  "has_marker l \<Longrightarrow>
   status_line st l =
     (let parts = py_split (py_strip l)
      in if 2 \<le> length parts
         then (parts ! 1, if 3 \<le> length parts then py_strip_chars ''()'' (parts ! 2) else snd st)
         else st)"
  by (simp add: status_line_def has_marker_def Let_def)

lemma foldl_status_line_filter:
  "foldl status_line st (filter has_marker ls) = foldl status_line st ls"
  by (induction ls arbitrary: st) (simp_all add: status_line_no_marker)

lemma parse_status_marker_lines:
  "parse_status output = foldl status_line (''unknown'', ''unknown'') (marker_lines output)"
  by (simp add: parse_status_def marker_lines_def foldl_status_line_filter)

lemma parse_status_no_marker:
  "marker_lines output = [] \<Longrightarrow> parse_status output = (''unknown'', ''unknown'')"
  by (simp add: parse_status_marker_lines)

lemma marker_lines_has_marker: "marker_lines output = [line] \<Longrightarrow> has_marker line"
proof -
  assume "marker_lines output = [line]"
  then have "line \<in> set (marker_lines output)"
    by simp
  then show "has_marker line"
    by (simp add: marker_lines_def)
qed

lemma parse_status_one_marker:
  assumes "marker_lines output = [line]" and "2 \<le> length (py_split (py_strip line))"
  shows "parse_status output = status_of_line (py_strip line)"
  using assms marker_lines_has_marker [OF assms(1)]
  by (simp add: parse_status_marker_lines status_line_marker status_of_line_def Let_def)

lemma parse_status_short_marker:
  assumes "marker_lines output = [line]" and "length (py_split (py_strip line)) < 2"
  shows "parse_status output = (''unknown'', ''unknown'')"
  using assms marker_lines_has_marker [OF assms(1)]
  by (simp add: parse_status_marker_lines status_line_marker Let_def)

lemma get_service_status_Inr:
  "subprocess_run [''systemctl'', ''status'', n] = Inr output \<Longrightarrow>
   get_service_status subprocess_run n =
     \<lparr>name = n, active = fst (parse_status output), sub = snd (parse_status output)\<rparr>"
  by (simp add: get_service_status_def split: prod.split)

lemma get_service_status_Inl:
  "subprocess_run [''systemctl'', ''status'', n] = Inl e \<Longrightarrow>
   get_service_status subprocess_run n =
     \<lparr>name = n, active = ''error'', sub = take 20 (exn_str e)\<rparr>"
  by (simp add: get_service_status_def)

lemma example_nginx_lines:
  "marker_lines (''nginx.service - web server'' @ [CHR 0x0A] @
                ''   Active: active (running) since Mon 2024-01-01'' @ [CHR 0x0A] @
                ''   Main PID: 812 (nginx)'' @ [CHR 0x0A]) =
     [''   Active: active (running) since Mon 2024-01-01'']"
  by (simp add: marker_lines_def has_marker_def string_eval)

lemma example_docker_lines:
  "marker_lines ''Unit docker.service could not be found.'' = []"
  by (simp add: marker_lines_def has_marker_def string_eval)

lemma example_active_line:
  "py_split (py_strip ''   Active: active (running) since Mon 2024-01-01'') =
     [''Active:'', ''active'', ''(running)'', ''since'', ''Mon'', ''2024-01-01'']"
  by (simp add: string_eval)

lemma example_active_status:
  "status_of_line (py_strip ''   Active: active (running) since Mon 2024-01-01'') =
     (''active'', ''running'')"
  by (simp add: status_of_line_def string_eval)






text \<open>
  C7.  When the query of the service manager raises, whatever the exception,
  \<open>get_service_status\<close> returns the record with \<open>active = error\<close> and the first 20
  characters of the error text as \<open>sub\<close>; when the query runs and its output has no
  marker line, the record has \<open>unknown\<close> twice.  Whether \<open>get_system_data\<close> raises
  does not depend on the service manager at all.
\<close>

theorem service_failure_absorbed:
  "(subprocess_run [''systemctl'', ''status'', service_name] = Inl e \<longrightarrow>
      get_service_status subprocess_run service_name =
        \<lparr>name = service_name, active = ''error'', sub = take 20 (exn_str e)\<rparr>) \<and>
   (subprocess_run [''systemctl'', ''status'', service_name] = Inr output \<and>
    marker_lines output = [] \<longrightarrow>
      get_service_status subprocess_run service_name =
        \<lparr>name = service_name, active = ''unknown'', sub = ''unknown''\<rparr>) \<and>
   isl (get_system_data h subprocess_run SERVICES) = isl (get_system_data h other_run SERVICES)"
proof -
  have "isl (map_sum id (\<lambda>s. ()) (get_system_data h subprocess_run SERVICES)) =
        isl (map_sum id (\<lambda>s. ()) (get_system_data h other_run SERVICES))"
    by (simp only: get_system_data_independent [of h subprocess_run SERVICES other_run])
  then have "isl (get_system_data h subprocess_run SERVICES) =
        isl (get_system_data h other_run SERVICES)"
    by (simp add: isl_map_sum)
  then show ?thesis
    by (simp add: get_service_status_Inl get_service_status_Inr parse_status_no_marker)
qed

theorem service_failure_absorbed_witness:
  "failing_run [''systemctl'', ''status'', ''nginx''] =
     Inl (Exn OtherException ''[Errno 2] No such file or directory: systemctl'') \<and>
   get_service_status failing_run ''nginx'' =
     \<lparr>name = ''nginx'', active = ''error'', sub = ''[Errno 2] No such fi''\<rparr> \<and>
   example_run [''systemctl'', ''status'', ''ssh''] =
     Inl (Exn OtherException ''Command timed out after 2 seconds'') \<and>
   get_service_status example_run ''ssh'' =
     \<lparr>name = ''ssh'', active = ''error'', sub = ''Command timed out af''\<rparr> \<and>
   example_run [''systemctl'', ''status'', ''docker''] =
     Inr ''Unit docker.service could not be found.'' \<and>
   marker_lines ''Unit docker.service could not be found.'' = [] \<and>
   get_service_status example_run ''docker'' =
     \<lparr>name = ''docker'', active = ''unknown'', sub = ''unknown''\<rparr> \<and>
   isl (get_system_data example_host failing_run [''nginx'', ''ssh'', ''docker'']) =
     isl (get_system_data example_host example_run [''nginx'', ''ssh'', ''docker''])"
proof -
  have r0: "failing_run [''systemctl'', ''status'', ''nginx''] =
     Inl (Exn OtherException ''[Errno 2] No such file or directory: systemctl'')"
    by (simp add: failing_run_def)
  have r1: "example_run [''systemctl'', ''status'', ''ssh''] =
     Inl (Exn OtherException ''Command timed out after 2 seconds'')"
    by (simp add: example_run_def)
  have r2: "example_run [''systemctl'', ''status'', ''docker''] =
     Inr ''Unit docker.service could not be found.''"
    by (simp add: example_run_def)
  from service_failure_absorbed
    [of failing_run "''nginx''" "Exn OtherException ''[Errno 2] No such file or directory: systemctl''"
      "[]" example_host "[''nginx'', ''ssh'', ''docker'']" example_run] r0
  have s0: "get_service_status failing_run ''nginx'' =
     \<lparr>name = ''nginx'', active = ''error'', sub = ''[Errno 2] No such fi''\<rparr> \<and>
     isl (get_system_data example_host failing_run [''nginx'', ''ssh'', ''docker'']) =
     isl (get_system_data example_host example_run [''nginx'', ''ssh'', ''docker''])"
    by simp
  from service_failure_absorbed
    [of example_run "''ssh''" "Exn OtherException ''Command timed out after 2 seconds''"
      "[]" example_host "[]" example_run] r1
  have s1: "get_service_status example_run ''ssh'' =
     \<lparr>name = ''ssh'', active = ''error'', sub = ''Command timed out af''\<rparr>"
    by simp
  from service_failure_absorbed
    [of example_run "''docker''" "Exn OtherException []"
      "''Unit docker.service could not be found.''" example_host "[]" example_run]
    r2 example_docker_lines
  have s2: "get_service_status example_run ''docker'' =
     \<lparr>name = ''docker'', active = ''unknown'', sub = ''unknown''\<rparr>"
    by simp
  from r0 s0 r1 s1 r2 example_docker_lines s2 show ?thesis
    by blast
qed

subsection \<open>The uptime\<close>

lemma py_int_of_int: "py_int (of_int k) = k"
  by (simp add: py_int_def)

lemma py_floordiv_numeral: "py_floordiv x (numeral k) = of_int (\<lfloor>x\<rfloor> div numeral k)"
  by (simp add: py_floordiv_def floor_divide_numeral)

lemma py_mod_numeral_floor: "\<lfloor>py_mod x (numeral k)\<rfloor> = \<lfloor>x\<rfloor> mod numeral k"
proof -
  have "py_mod x (numeral k) = x - of_int (numeral k * (\<lfloor>x\<rfloor> div numeral k))"
    by (simp add: py_mod_def floor_divide_numeral)
  then have "\<lfloor>py_mod x (numeral k)\<rfloor> = \<lfloor>x\<rfloor> - numeral k * (\<lfloor>x\<rfloor> div numeral k)"
    by (simp only: floor_diff_of_int)
  then show ?thesis
    by (simp add: minus_mult_div_eq_mod)
qed

lemma format_uptime_nonneg:
  assumes "0 \<le> seconds"
  shows "format_uptime seconds =
     show_nat (nat \<lfloor>seconds\<rfloor> div 86400) @ ''d '' @
     show_nat (nat \<lfloor>seconds\<rfloor> mod 86400 div 3600) @ ''h '' @
     show_nat (nat \<lfloor>seconds\<rfloor> mod 3600 div 60) @ ''m''"
proof -
  have f: "0 \<le> \<lfloor>seconds\<rfloor>"
    using assms by simp
  have d: "py_int (py_floordiv seconds 86400) = \<lfloor>seconds\<rfloor> div 86400"
    by (simp only: py_floordiv_numeral py_int_of_int)
  have h: "py_int (py_floordiv (py_mod seconds 86400) 3600) = \<lfloor>seconds\<rfloor> mod 86400 div 3600"
    by (simp only: py_floordiv_numeral py_int_of_int py_mod_numeral_floor)
  have m: "py_int (py_floordiv (py_mod seconds 3600) 60) = \<lfloor>seconds\<rfloor> mod 3600 div 60"
    by (simp only: py_floordiv_numeral py_int_of_int py_mod_numeral_floor)
  have nd: "nat (\<lfloor>seconds\<rfloor> div 86400) = nat \<lfloor>seconds\<rfloor> div 86400"
    using f by (simp add: nat_div_distrib)
  have nh: "nat (\<lfloor>seconds\<rfloor> mod 86400 div 3600) = nat \<lfloor>seconds\<rfloor> mod 86400 div 3600"
    using f by (simp add: nat_div_distrib nat_mod_distrib)
  have nm: "nat (\<lfloor>seconds\<rfloor> mod 3600 div 60) = nat \<lfloor>seconds\<rfloor> mod 3600 div 60"
    using f by (simp add: nat_div_distrib nat_mod_distrib)
  have pd: "0 \<le> \<lfloor>seconds\<rfloor> div 86400"
    using f by (simp add: pos_imp_zdiv_nonneg_iff)
  have ph: "0 \<le> \<lfloor>seconds\<rfloor> mod 86400 div 3600"
    by (simp add: pos_imp_zdiv_nonneg_iff)
  have pm: "0 \<le> \<lfloor>seconds\<rfloor> mod 3600 div 60"
    by (simp add: pos_imp_zdiv_nonneg_iff)
  show ?thesis
    unfolding format_uptime_def Let_def d h m
    by (simp only: show_int_nonneg [OF pd] show_int_nonneg [OF ph] show_int_nonneg [OF pm]
        nd nh nm)
qed

lemma uptime_sum:
  "(n::nat) = 86400 * (n div 86400) + 3600 * (n mod 86400 div 3600) +
     60 * (n mod 3600 div 60) + n mod 60"
proof -
  have a: "n = 86400 * (n div 86400) + n mod 86400"
    by simp
  have "n mod 86400 = 3600 * (n mod 86400 div 3600) + n mod 86400 mod 3600"
    by simp
  then have b: "n mod 86400 = 3600 * (n mod 86400 div 3600) + n mod 3600"
    by (simp only: mod_mod_cancel [of 3600 86400 n, simplified])
  have "n mod 3600 = 60 * (n mod 3600 div 60) + n mod 3600 mod 60"
    by simp
  then have c: "n mod 3600 = 60 * (n mod 3600 div 60) + n mod 60"
    by (simp only: mod_mod_cancel [of 60 3600 n, simplified])
  show ?thesis
    using a b c by linarith
qed

lemma uptime_bounds: "(n::nat) mod 86400 div 3600 < 24 \<and> n mod 3600 div 60 < 60"
  by (simp add: div_less_iff_less_mult)

text \<open>
  C8.  For a non-negative number of seconds, \<open>format_uptime\<close> renders the whole days,
  the whole hours below 24 and the whole minutes below 60 of the integer part of the
  value as \<open>{d}d {h}h {m}m\<close>; what remains are the seconds below 60 and the fraction,
  which are dropped.  90061 seconds give \<open>1d 1h 1m\<close>.
\<close>

theorem format_uptime_decomposition:
  "0 \<le> seconds \<Longrightarrow>
   format_uptime seconds =
     show_nat (nat \<lfloor>seconds\<rfloor> div 86400) @ ''d '' @
     show_nat (nat \<lfloor>seconds\<rfloor> mod 86400 div 3600) @ ''h '' @
     show_nat (nat \<lfloor>seconds\<rfloor> mod 3600 div 60) @ ''m'' \<and>
   nat \<lfloor>seconds\<rfloor> =
     86400 * (nat \<lfloor>seconds\<rfloor> div 86400) + 3600 * (nat \<lfloor>seconds\<rfloor> mod 86400 div 3600) +
     60 * (nat \<lfloor>seconds\<rfloor> mod 3600 div 60) + nat \<lfloor>seconds\<rfloor> mod 60 \<and>
   nat \<lfloor>seconds\<rfloor> mod 86400 div 3600 < 24 \<and> nat \<lfloor>seconds\<rfloor> mod 3600 div 60 < 60"
  using format_uptime_nonneg [of seconds] uptime_sum [of "nat \<lfloor>seconds\<rfloor>"]
    uptime_bounds [of "nat \<lfloor>seconds\<rfloor>"]
  by blast

theorem format_uptime_decomposition_witness:
  "(0::rat) \<le> 90061 \<and> format_uptime 90061 = ''1d 1h 1m''"
proof -
  have h: "(0::rat) \<le> 90061"
    by simp
  from format_uptime_decomposition [OF h]
  have "format_uptime 90061 =
     show_nat (nat \<lfloor>90061::rat\<rfloor> div 86400) @ ''d '' @
     show_nat (nat \<lfloor>90061::rat\<rfloor> mod 86400 div 3600) @ ''h '' @
     show_nat (nat \<lfloor>90061::rat\<rfloor> mod 3600 div 60) @ ''m''"
    by (rule conjunct1)
  then show ?thesis
    by (simp add: show_nat_digit digit_char_def)
qed

subsection \<open>The byte count\<close>

lemma bit_length_le: "bit_length n \<le> k \<longleftrightarrow> n < 2 ^ k"
proof (induction n arbitrary: k rule: bit_length.induct)
  case (1 n)
  show ?case
  proof (cases "n = 0")
    case True
    then show ?thesis by (simp add: bit_length.simps)
  next
    case False
    show ?thesis
    proof (cases k)
      case 0
      with False show ?thesis by (simp add: bit_length.simps)
    next
      case (Suc k')
      have "bit_length n = Suc (bit_length (n div 2))"
        using False by (subst bit_length.simps) simp
      moreover have "bit_length (n div 2) \<le> k' \<longleftrightarrow> n div 2 < 2 ^ k'"
        using False by (rule "1.IH")
      moreover have "n div 2 < 2 ^ k' \<longleftrightarrow> n < 2 ^ Suc k'"
        by auto
      ultimately show ?thesis
        using Suc by simp
    qed
  qed
qed

lemma py_float_exact: "n < 2 ^ 53 \<Longrightarrow> py_float n = Inr (of_nat n)"
  by (simp add: py_float_def bit_length_le)

lemma round_half_even_ge_floor: "\<lfloor>y\<rfloor> \<le> round_half_even y"
  by (simp add: round_half_even_def Let_def)

lemma py_float_large:
  assumes big: "\<not> n < 2 ^ 53" and res: "py_float n = Inr x"
  shows "2 ^ 53 \<le> x"
proof -
  define bl where "bl = bit_length n"
  have bl53: "53 < bl"
    using big bit_length_le [of n 53] by (simp add: bl_def)
  have "\<not> bl \<le> bl - 1"
    using bl53 by simp
  then have "\<not> n < 2 ^ (bl - 1)"
    using bit_length_le [of n "bl - 1"] by (simp add: bl_def)
  then have n_ge: "(2::nat) ^ (bl - 1) \<le> n"
    by simp
  define e where "e = bl - 53"
  have e1: "1 \<le> e" and ble: "bl - 1 = 52 + e"
    using bl53 by (simp_all add: e_def)
  have "(2::rat) ^ (52 + e) \<le> of_nat n"
    using n_ge ble by (metis of_nat_le_iff of_nat_numeral of_nat_power)
  then have "(2::rat) ^ 52 * 2 ^ e \<le> of_nat n"
    by (simp add: power_add)
  then have y: "(2::rat) ^ 52 \<le> of_nat n / 2 ^ e"
    by (simp add: pos_le_divide_eq)
  have "(2::int) ^ 52 \<le> \<lfloor>of_nat n / 2 ^ e :: rat\<rfloor>"
    using y by (simp add: le_floor_iff)
  then have m: "(2::int) ^ 52 \<le> round_half_even (of_nat n / 2 ^ e)"
    using round_half_even_ge_floor [of "of_nat n / 2 ^ e"] by linarith
  have x: "x = of_int (round_half_even (of_nat n / 2 ^ e)) * 2 ^ e"
    using res bl53 by (simp add: py_float_def bl_def e_def Let_def split: if_splits)
  have "(2::rat) ^ 52 \<le> of_int (round_half_even (of_nat n / 2 ^ e))"
    using m by (metis of_int_le_iff of_int_numeral of_int_power)
  moreover have "(2::rat) \<le> 2 ^ e"
    using e1 by (metis one_le_numeral power_increasing power_one_right)
  ultimately have "(2::rat) ^ 52 * 2 \<le> of_int (round_half_even (of_nat n / 2 ^ e)) * 2 ^ e"
    by (intro mult_mono) simp_all
  then show ?thesis
    by (simp add: x)
qed

lemma format_bytes_from_units:
  "format_bytes_from [''KB'', ''MB'', ''GB'', ''TB''] (x / 1024) =
     (if x / 1024 ^ 1 < 1024 then format_f 1 (x / 1024 ^ 1) @ ''KB''
      else if x / 1024 ^ 2 < 1024 then format_f 1 (x / 1024 ^ 2) @ ''MB''
      else if x / 1024 ^ 3 < 1024 then format_f 1 (x / 1024 ^ 3) @ ''GB''
      else if x / 1024 ^ 4 < 1024 then format_f 1 (x / 1024 ^ 4) @ ''TB''
      else format_f 1 (x / 1024 ^ 5) @ ''PB'')"
  by simp

lemma spec_unit_index_unfold:
  "spec_unit_index n =
     (if (of_nat n :: rat) / 1024 ^ 0 < 1024 then 0
      else if (of_nat n :: rat) / 1024 ^ 1 < 1024 then 1
      else if (of_nat n :: rat) / 1024 ^ 2 < 1024 then 2
      else if (of_nat n :: rat) / 1024 ^ 3 < 1024 then 3
      else if (of_nat n :: rat) / 1024 ^ 4 < 1024 then 4
      else 5)"
  by (simp add: spec_unit_index_def)

lemma format_bytes_small:
  assumes "n < 2 ^ 53"
  shows "format_bytes n =
     Inr (format_f 1 (of_nat n / 1024 ^ spec_unit_index n) @ spec_units ! spec_unit_index n)"
proof -
  have "(of_nat n :: rat) < 1024 \<longleftrightarrow> n < 1024"
    by (metis of_nat_less_iff of_nat_numeral)
  then show ?thesis
    unfolding format_bytes_def py_float_exact [OF assms] and_then_def
      format_bytes_from_units spec_unit_index_unfold spec_units_def
    by simp
qed

lemma format_bytes_large:
  assumes big: "\<not> n < 2 ^ 53" and res: "py_float n = Inr x"
  shows "format_bytes n = Inr (format_f 1 (x / 1024 ^ 5) @ ''PB'') \<and> spec_unit_index n = 5"
proof -
  have x: "2 ^ 53 \<le> x"
    using big res by (rule py_float_large)
  have n: "(2::nat) ^ 53 \<le> n"
    using big by simp
  then have n': "(2::rat) ^ 53 \<le> of_nat n"
    by (metis of_nat_le_iff of_nat_numeral of_nat_power)
  have "\<not> n < 1024"
    using n by simp
  then show ?thesis
    unfolding format_bytes_def res and_then_def format_bytes_from_units spec_unit_index_unfold
    using x n' by simp
qed

lemma bit_length_eq:
  assumes "2 ^ k \<le> n" and "n < 2 ^ Suc k"
  shows "bit_length n = Suc k"
proof -
  have "bit_length n \<le> Suc k"
    using assms(2) by (simp only: bit_length_le)
  moreover have "\<not> bit_length n \<le> k"
    using assms(1) by (simp add: bit_length_le)
  ultimately show ?thesis
    by simp
qed

lemma py_float_numeral_exact:
  "numeral k < (2::nat) ^ 53 \<Longrightarrow> py_float (numeral k) = Inr (numeral k)"
  using py_float_exact [of "numeral k"] by simp

text \<open>
  C5.  For a byte count that converts to a float \<open>x\<close>, \<open>format_bytes\<close> renders
  \<open>x\<close> divided by the power of 1024 of the selected unit with one decimal place,
  followed by that unit; the unit is the first of B, KB, MB, GB, TB at which the count is
  below 1024, and PB if there is none.  Below \<open>2 ^ 53\<close> the conversion is exact, and a
  count of \<open>1024 ^ 5\<close> or more is rendered in PB whatever its size.
\<close>

theorem format_bytes_unit:
  "py_float bytes = Inr x \<Longrightarrow>
   format_bytes bytes =
     Inr (format_f 1 (x / 1024 ^ spec_unit_index bytes) @ spec_units ! spec_unit_index bytes) \<and>
   (bytes < 2 ^ 53 \<longrightarrow> x = of_nat bytes) \<and>
   (1024 ^ 5 \<le> bytes \<longrightarrow> spec_units ! spec_unit_index bytes = ''PB'')"
proof -
  assume res: "py_float bytes = Inr x"
  have fmt: "format_bytes bytes =
     Inr (format_f 1 (x / 1024 ^ spec_unit_index bytes) @ spec_units ! spec_unit_index bytes)"
  proof (cases "bytes < 2 ^ 53")
    case True
    then have "x = of_nat bytes"
      using res by (simp add: py_float_exact)
    then show ?thesis
      using format_bytes_small [OF True] by simp
  next
    case False
    then show ?thesis
      using format_bytes_large [OF False res] by (simp add: spec_units_def)
  qed
  have exact: "bytes < 2 ^ 53 \<longrightarrow> x = of_nat bytes"
  proof
    assume "bytes < 2 ^ 53"
    from py_float_exact [OF this] res show "x = of_nat bytes"
      by simp
  qed
  have pb: "1024 ^ 5 \<le> bytes \<longrightarrow> spec_units ! spec_unit_index bytes = ''PB''"
  proof
    assume "1024 ^ 5 \<le> bytes"
    then have "(1024::rat) ^ 5 \<le> of_nat bytes"
      by (metis of_nat_le_iff of_nat_numeral of_nat_power)
    then have "spec_unit_index bytes = 5"
      unfolding spec_unit_index_unfold by simp
    then show "spec_units ! spec_unit_index bytes = ''PB''"
      by (simp add: spec_units_def)
  qed
  from fmt exact pb show ?thesis
    by blast
qed

text \<open>
  The values of the specification: 0, 1023, 1024, 1536 and \<open>1024 ^ 4\<close> bytes, and
  1024 PB.
\<close>

theorem format_bytes_unit_witness:
  "py_float 1536 = Inr 1536 \<and>
   format_bytes 0 = Inr ''0.0B'' \<and>
   format_bytes 1023 = Inr ''1023.0B'' \<and>
   format_bytes 1024 = Inr ''1.0KB'' \<and>
   format_bytes 1536 = Inr ''1.5KB'' \<and>
   format_bytes (1024 ^ 4) = Inr ''1.0TB'' \<and>
   format_bytes (1024 ^ 6) = Inr ''1024.0PB''"
proof -
  have f0: "py_float 0 = Inr 0"
    using py_float_exact [of 0] by simp
  have f1: "py_float 1023 = Inr 1023"
    by (simp add: py_float_numeral_exact)
  have f2: "py_float 1024 = Inr 1024"
    by (simp add: py_float_numeral_exact)
  have f3: "py_float 1536 = Inr 1536"
    by (simp add: py_float_numeral_exact)
  have f4: "py_float (1024 ^ 4) = Inr (1024 ^ 4)"
    using py_float_exact [of "1024 ^ 4"] by simp
  have "bit_length (1024 ^ 6) = Suc 60"
    by (rule bit_length_eq) simp_all
  then have f5: "py_float (1024 ^ 6) = Inr (1024 ^ 6)"
    by (simp add: py_float_def round_half_even_def Let_def)
  have i0: "spec_unit_index 0 = 0" and i1: "spec_unit_index 1023 = 0"
    and i2: "spec_unit_index 1024 = 1" and i3: "spec_unit_index 1536 = 1"
    and i4: "spec_unit_index (1024 ^ 4) = 4" and i5: "spec_unit_index (1024 ^ 6) = 5"
    unfolding spec_unit_index_unfold by simp_all
  have "format_bytes 0 = Inr ''0.0B''"
    using format_bytes_unit [OF f0, unfolded i0 spec_units_def] by (simp add: format_eval)
  moreover have "format_bytes 1023 = Inr ''1023.0B''"
    using format_bytes_unit [OF f1, unfolded i1 spec_units_def] by (simp add: format_eval)
  moreover have "format_bytes 1024 = Inr ''1.0KB''"
    using format_bytes_unit [OF f2, unfolded i2 spec_units_def] by (simp add: format_eval)
  moreover have "format_bytes 1536 = Inr ''1.5KB''"
    using format_bytes_unit [OF f3, unfolded i3 spec_units_def] by (simp add: format_eval)
  moreover have "format_bytes (1024 ^ 4) = Inr ''1.0TB''"
    using format_bytes_unit [OF f4, unfolded i4 spec_units_def] by (simp add: format_eval)
  moreover have "format_bytes (1024 ^ 6) = Inr ''1024.0PB''"
    using format_bytes_unit [OF f5, unfolded i5 spec_units_def] by (simp add: format_eval)
  ultimately show ?thesis
    using f3 by blast
qed

subsection \<open>The top processes\<close>

lemma digit_cases:
  "d < 10 \<Longrightarrow> d = 0 \<or> d = 1 \<or> d = 2 \<or> d = 3 \<or> d = 4 \<or> d = 5 \<or> d = 6 \<or> d = 7 \<or> d = 8 \<or> d = (9::nat)"
  by arith

lemma digit_of_digit_char:
  assumes "d < 10"
  shows "digit_of (digit_char d) = Some d"
  using digit_cases [OF assms] by (elim disjE) (simp_all add: digit_of_def digit_char_def)

lemma digit_char_plain:
  assumes "d < 10"
  shows "digit_char d \<noteq> CHR ''.'' \<and> digit_char d \<noteq> CHR ''-'' \<and> digit_char d \<noteq> CHR ''%''"
  using digit_cases [OF assms] by (elim disjE) (simp_all add: digit_char_def)

lemma digits_val_append:
  "digits_val acc (s @ t) = (case digits_val acc s of None \<Rightarrow> None | Some a \<Rightarrow> digits_val a t)"
  by (induction s arbitrary: acc) (simp_all split: option.splits)

lemma digits_val_show_nat: "digits_val 0 (show_nat n) = Some n"
proof (induction n rule: show_nat.induct)
  case (1 n)
  show ?case
  proof (cases "n < 10")
    case True
    then show ?thesis
      by (simp add: show_nat_digit digit_of_digit_char)
  next
    case False
    then have "digits_val 0 (show_nat (n div 10)) = Some (n div 10)"
      by (rule "1.IH")
    then show ?thesis
      using False by (simp add: show_nat_more digits_val_append digit_of_digit_char)
  qed
qed

lemma show_nat_chars: "c \<in> set (show_nat n) \<Longrightarrow> \<exists>d<10. c = digit_char d"
proof (induction n rule: show_nat.induct)
  case (1 n)
  show ?case
  proof (cases "n < 10")
    case True
    then show ?thesis
      using "1.prems" by (auto simp add: show_nat_digit)
  next
    case False
    then have "show_nat n = show_nat (n div 10) @ [digit_char (n mod 10)]"
      by (intro show_nat_more) simp
    then have "c \<in> set (show_nat (n div 10)) \<or> c = digit_char (n mod 10)"
      using "1.prems" by auto
    then show ?thesis
    proof
      assume "c \<in> set (show_nat (n div 10))"
      with False show ?thesis
        by (rule "1.IH")
    next
      assume "c = digit_char (n mod 10)"
      moreover have "n mod 10 < 10"
        by simp
      ultimately show ?thesis
        by blast
    qed
  qed
qed

lemma show_nat_nonempty: "show_nat n \<noteq> []"
  by (cases "n < 10") (simp_all add: show_nat_digit show_nat_more)

lemma show_nat_plain:
  assumes "c \<in> set (show_nat n)"
  shows "c \<noteq> CHR ''.'' \<and> c \<noteq> CHR ''-'' \<and> c \<noteq> CHR ''%''"
proof -
  obtain d where "d < 10" and "c = digit_char d"
    using show_nat_chars [OF assms] by blast
  then show ?thesis
    using digit_char_plain [of d] by simp
qed

lemma hd_show_nat: "hd (show_nat n) \<noteq> CHR ''-'' \<and> hd (show_nat n) \<noteq> CHR ''%''"
proof -
  have "hd (show_nat n) \<in> set (show_nat n)"
    using show_nat_nonempty by (rule hd_in_set)
  from show_nat_plain [OF this] show ?thesis
    by blast
qed

text \<open>The text of one decimal place.\<close>

lemma format_f_one:
  "format_f 1 x =
     (if x < 0 then ''-'' else []) @ show_nat (nat (round_half_even (\<bar>x\<bar> * 10)) div 10) @
     [CHR ''.'', digit_char (nat (round_half_even (\<bar>x\<bar> * 10)) mod 10)]"
  by (simp add: format_f_def Let_def show_nat_digit)

lemma takeWhile_plain:
  "\<forall>c \<in> set s. c \<noteq> d \<Longrightarrow> takeWhile (\<lambda>c. c \<noteq> d) (s @ d # t) = s"
  by (induction s) simp_all

lemma dropWhile_plain:
  "\<forall>c \<in> set s. c \<noteq> d \<Longrightarrow> dropWhile (\<lambda>c. c \<noteq> d) (s @ d # t) = d # t"
  by (induction s) simp_all

lemma py_float_of_str_unsigned:
  assumes "k < 10"
  shows "py_float_of_str (show_nat n @ [CHR ''.'', digit_char k]) = Inr (of_nat n + of_nat k / 10)"
proof -
  have plain: "\<forall>c \<in> set (show_nat n). c \<noteq> CHR ''.''"
    using show_nat_plain by blast
  have hd: "hd (show_nat n @ [CHR ''.'', digit_char k]) \<noteq> CHR ''-''"
    using hd_show_nat [of n] show_nat_nonempty [of n] by simp
  show ?thesis
    unfolding py_float_of_str_def
    using hd assms
    by (simp add: Let_def takeWhile_plain [OF plain] dropWhile_plain [OF plain]
        show_nat_nonempty digits_val_show_nat digit_of_digit_char)
qed

lemma py_float_of_str_signed:
  assumes "k < 10"
  shows "py_float_of_str (CHR ''-'' # show_nat n @ [CHR ''.'', digit_char k]) =
         Inr (- (of_nat n + of_nat k / 10))"
proof -
  have plain: "\<forall>c \<in> set (show_nat n). c \<noteq> CHR ''.''"
    using show_nat_plain by blast
  show ?thesis
    unfolding py_float_of_str_def
    using assms
    by (simp add: Let_def takeWhile_plain [OF plain] dropWhile_plain [OF plain]
        show_nat_nonempty digits_val_show_nat digit_of_digit_char)
qed

lemma strip_percent:
  assumes "s \<noteq> []" and "hd s \<noteq> CHR ''%''" and "last s \<noteq> CHR ''%''"
  shows "py_strip_chars ''%'' (s @ ''%'') = s"
proof -
  obtain a s' where s: "s = a # s'"
    using assms(1) by (cases s) auto
  obtain b s'' where r: "rev s = b # s''"
    using assms(1) by (cases "rev s") auto
  have a: "a \<noteq> CHR ''%''"
    using assms(2) s by simp
  have "last s = b"
    using r by (metis last_rev list.sel(1) rev_rev_ident)
  then have b: "b \<noteq> CHR ''%''"
    using assms(3) by simp
  have "dropWhile (\<lambda>c. c \<in> set ''%'') (s @ ''%'') = s @ ''%''"
    using a s by simp
  moreover have "dropWhile (\<lambda>c. c \<in> set ''%'') (rev (s @ ''%'')) = rev s"
    using b r by simp
  ultimately show ?thesis
    by (simp add: py_strip_chars_def strip_where_def)
qed

lemma tenths_split:
  assumes "q = nat (round_half_even (\<bar>x\<bar> * 10))"
  shows "tenths x =
     (if x < 0 then - (of_nat (q div 10) + of_nat (q mod 10) / 10)
      else of_nat (q div 10) + of_nat (q mod 10) / 10)"
proof -
  have "0 \<le> \<lfloor>\<bar>x\<bar> * 10\<rfloor>"
    by simp
  then have "0 \<le> round_half_even (\<bar>x\<bar> * 10)"
    using round_half_even_ge_floor [of "\<bar>x\<bar> * 10"] by linarith
  then have q: "(of_int (round_half_even (\<bar>x\<bar> * 10)) :: rat) = of_nat q"
    using assms by simp
  have "(of_nat q :: rat) = of_nat (10 * (q div 10) + q mod 10)"
    by simp
  also have "\<dots> = 10 * of_nat (q div 10) + of_nat (q mod 10)"
    by (simp only: of_nat_add of_nat_mult of_nat_numeral)
  finally have eq: "(of_nat q :: rat) / 10 = of_nat (q div 10) + of_nat (q mod 10) / 10"
    by simp
  show ?thesis
    unfolding tenths_def Let_def q eq by (rule refl)
qed

lemma cpu_key_sample_of: "cpu_key (sample_of info) = Inr (shown_cpu info)"
proof -
  define x where "x = info_cpu_percent info"
  define q where "q = nat (round_half_even (\<bar>x\<bar> * 10))"
  define s where "s = format_f 1 x"
  have k: "q mod 10 < 10"
    by simp
  have f: "s = (if x < 0 then ''-'' else []) @ show_nat (q div 10) @ [CHR ''.'', digit_char (q mod 10)]"
    unfolding q_def s_def by (rule format_f_one)
  have ne: "s \<noteq> []"
    unfolding f by simp
  have h: "hd s \<noteq> CHR ''%''"
    unfolding f using hd_show_nat [of "q div 10"] show_nat_nonempty [of "q div 10"] by simp
  have l: "last s \<noteq> CHR ''%''"
    unfolding f using digit_char_plain [OF k] by simp
  have "cpu_key (sample_of info) = py_float_of_str (py_strip_chars ''%'' (s @ ''%''))"
    unfolding cpu_key_def sample_of_def x_def [symmetric] s_def [symmetric] by simp
  also have "\<dots> = py_float_of_str s"
    by (simp only: strip_percent [OF ne h l])
  also have "\<dots> = Inr (tenths x)"
  proof (cases "x < 0")
    case True
    then show ?thesis
      unfolding tenths_split [OF q_def] f
      using py_float_of_str_signed [OF k, of "q div 10"] by simp
  next
    case False
    then show ?thesis
      unfolding tenths_split [OF q_def] f
      using py_float_of_str_unsigned [OF k, of "q div 10"] by simp
  qed
  finally show ?thesis
    by (simp add: shown_cpu_def x_def)
qed

text \<open>The loop, the keys and the sort.\<close>

lemma uncaught_simps:
  "uncaught (Inl e) = (exn_cls e \<noteq> NoSuchProcess \<and> exn_cls e \<noteq> AccessDenied)"
  "uncaught (Inr info) = False"
  by (simp_all add: uncaught_def)

lemma collect_processes_spec:
  "collect_processes procs tops =
     (case find uncaught procs of
        None \<Rightarrow> Inr (tops @ map sample_of (visible procs))
      | Some p \<Rightarrow> Inl (projl p))"
proof (induction procs arbitrary: tops)
  case Nil
  show ?case
    by simp
next
  case (Cons proc procs)
  show ?case
  proof (cases proc)
    case (Inl e)
    show ?thesis
      unfolding Inl using Cons.IH [of tops] by (simp add: uncaught_simps split: option.split)
  next
    case (Inr info)
    show ?thesis
      unfolding Inr using Cons.IH [of "tops @ [sample_of info]"]
      by (simp add: uncaught_simps split: option.split)
  qed
qed

lemma with_keys_cpu_key:
  "with_keys cpu_key (map sample_of infos) = Inr (map (\<lambda>i. (shown_cpu i, sample_of i)) infos)"
  by (induction infos) (simp_all add: cpu_key_sample_of and_then_def)

lemma insort_key_map:
  "insort_key f (g x) (map g xs) = map g (insort_key (\<lambda>y. f (g y)) x xs)"
  by (induction xs) simp_all

lemma sort_key_map: "sort_key f (map g xs) = map g (sort_key (\<lambda>y. f (g y)) xs)"
  by (induction xs) (simp_all add: insort_key_map)

lemma py_sorted_reverse_samples:
  "py_sorted_reverse cpu_key (map sample_of infos) =
     Inr (map sample_of (sort_key (\<lambda>i. - shown_cpu i) infos))"
  by (simp add: py_sorted_reverse_def with_keys_cpu_key and_then_def sort_key_map comp_def)

lemma top_processes_of_spec:
  "top_processes_of procs =
     (case find uncaught procs of
        None \<Rightarrow> Inr (map sample_of (take 10 (sort_key (\<lambda>i. - shown_cpu i) (visible procs))))
      | Some p \<Rightarrow> Inl (projl p))"
  by (simp add: top_processes_of_def collect_processes_spec and_then_def
      py_sorted_reverse_samples take_map split: option.split)

lemma find_uncaught_None: "(\<forall>p \<in> set procs. \<not> uncaught p) \<Longrightarrow> find uncaught procs = None"
  by (simp add: find_None_iff)





















subsection \<open>A snapshot that is built\<close>

lemma format_bytes_returns: "n < 2 ^ 53 \<Longrightarrow> \<exists>s. format_bytes n = Inr s"
  using format_bytes_small [of n] by blast

lemma top_processes_of_returns:
  "\<forall>p \<in> set procs. \<not> uncaught p \<Longrightarrow> \<exists>tops. top_processes_of procs = Inr tops"
  by (simp add: top_processes_of_spec find_uncaught_None)

lemma get_system_data_returns:
  assumes "psutil_cpu_percent h = Inr c" and "psutil_cpu_count h = Inr k"
    and "psutil_getloadavg h = Inr l" and "psutil_virtual_memory h = Inr m"
    and "psutil_disk_usage h ''/'' = Inr d" and "psutil_net_io_counters h = Inr n"
    and "psutil_boot_time h = Inr b" and "psutil_process_iter h = Inr procs"
    and "vm_total m < 2 ^ 53" and "vm_used m < 2 ^ 53" and "vm_available m < 2 ^ 53"
    and "du_total d < 2 ^ 53" and "du_used d < 2 ^ 53" and "du_free d < 2 ^ 53"
    and "bytes_sent n < 2 ^ 53" and "bytes_recv n < 2 ^ 53"
    and "\<forall>p \<in> set procs. \<not> uncaught p"
  shows "\<not> isl (get_system_data h subprocess_run SERVICES)"
proof -
  obtain s1 s2 s3 s4 s5 s6 s7 s8 where
    "format_bytes (vm_total m) = Inr s1" "format_bytes (vm_used m) = Inr s2"
    "format_bytes (vm_available m) = Inr s3" "format_bytes (du_total d) = Inr s4"
    "format_bytes (du_used d) = Inr s5" "format_bytes (du_free d) = Inr s6"
    "format_bytes (bytes_sent n) = Inr s7" "format_bytes (bytes_recv n) = Inr s8"
    using assms(9-16) format_bytes_returns by metis
  moreover obtain tops where "top_processes_of procs = Inr tops"
    using assms(17) top_processes_of_returns by blast
  ultimately show ?thesis
    unfolding get_system_data_def Let_def using assms(1-8)
    by (simp add: and_then_def split: prod.split)
qed

lemma example_host_returns:
  "\<not> isl (get_system_data example_host subprocess_run SERVICES)"
proof (rule get_system_data_returns)
  show "psutil_cpu_percent example_host = Inr (25 / 2)"
    by (simp add: example_host_def)
  show "psutil_cpu_count example_host = Inr (Some 4)"
    by (simp add: example_host_def)
  show "psutil_getloadavg example_host = Inr (1 / 2, 1 / 4, 1 / 8)"
    by (simp add: example_host_def)
  show "psutil_virtual_memory example_host =
      Inr \<lparr>vm_total = 8589934592, vm_used = 1536, vm_available = 1023, vm_percent = 40\<rparr>"
    by (simp add: example_host_def)
  show "psutil_disk_usage example_host ''/'' =
      Inr \<lparr>du_total = 1099511627776, du_used = 1024, du_free = 0, du_percent = 1\<rparr>"
    by (simp add: example_host_def)
  show "psutil_net_io_counters example_host = Inr \<lparr>bytes_sent = 1280, bytes_recv = 123456789\<rparr>"
    by (simp add: example_host_def)
  show "psutil_boot_time example_host = Inr 1000000"
    by (simp add: example_host_def)
  show "psutil_process_iter example_host =
      Inr [Inr (example_info 1 (3 / 2)),
           Inl (Exn NoSuchProcess ''process no longer exists (pid=7)''),
           Inr (example_info 2 (7 / 4)),
           Inl (Exn AccessDenied ''(pid=9)'')]"
    by (simp add: example_host_def)
  show "\<forall>p \<in> set [Inr (example_info 1 (3 / 2)),
           Inl (Exn NoSuchProcess ''process no longer exists (pid=7)''),
           Inr (example_info 2 (7 / 4)),
           Inl (Exn AccessDenied ''(pid=9)'')]. \<not> uncaught p"
    by (simp add: uncaught_simps)
qed simp_all

lemma example_statuses:
  "map (get_service_status example_run) [''nginx'', ''ssh'', ''docker''] =
     [\<lparr>name = ''nginx'', active = ''active'', sub = ''running''\<rparr>,
      \<lparr>name = ''ssh'', active = ''error'', sub = ''Command timed out af''\<rparr>,
      \<lparr>name = ''docker'', active = ''unknown'', sub = ''unknown''\<rparr>]"
proof -
  have r1: "example_run [''systemctl'', ''status'', ''nginx''] =
     Inr (''nginx.service - web server'' @ [CHR 0x0A] @
          ''   Active: active (running) since Mon 2024-01-01'' @ [CHR 0x0A] @
          ''   Main PID: 812 (nginx)'' @ [CHR 0x0A])"
    by (simp add: example_run_def)
  have len: "2 \<le> length (py_split (py_strip ''   Active: active (running) since Mon 2024-01-01''))"
    by (simp only: example_active_line) simp
  have "get_service_status example_run ''nginx'' =
      \<lparr>name = ''nginx'', active = ''active'', sub = ''running''\<rparr>"
    unfolding get_service_status_Inr [of example_run "''nginx''", OF r1] parse_status_one_marker [OF example_nginx_lines len]
      example_active_status
    by simp
  moreover have "get_service_status example_run ''ssh'' =
      \<lparr>name = ''ssh'', active = ''error'', sub = ''Command timed out af''\<rparr>"
    by (simp add: get_service_status_Inl example_run_def)
  moreover have "get_service_status example_run ''docker'' =
      \<lparr>name = ''docker'', active = ''unknown'', sub = ''unknown''\<rparr>"
    by (simp add: get_service_status_Inr [of example_run "''docker''" "''Unit docker.service could not be found.''"]
        example_run_def parse_status_no_marker example_docker_lines)
  ultimately show ?thesis
    by simp
qed

text \<open>
  The snapshot of the example host, with one service that runs, one whose query times out
  and one that is not installed: it is built, and its \<open>services\<close> field has the three
  names in the order of \<open>SERVICES\<close>.
\<close>

theorem get_system_data_services_order_witness:
  "get_system_data example_host example_run [''nginx'', ''ssh'', ''docker''] =
     Inr (projr (get_system_data example_host example_run [''nginx'', ''ssh'', ''docker''])) \<and>
   length (services (projr (get_system_data example_host example_run
     [''nginx'', ''ssh'', ''docker'']))) = 3 \<and>
   map name (services (projr (get_system_data example_host example_run
     [''nginx'', ''ssh'', ''docker'']))) = [''nginx'', ''ssh'', ''docker''] \<and>
   services (projr (get_system_data example_host example_run [''nginx'', ''ssh'', ''docker''])) =
     [\<lparr>name = ''nginx'', active = ''active'', sub = ''running''\<rparr>,
      \<lparr>name = ''ssh'', active = ''error'', sub = ''Command timed out af''\<rparr>,
      \<lparr>name = ''docker'', active = ''unknown'', sub = ''unknown''\<rparr>]"
proof -
  have built: "get_system_data example_host example_run [''nginx'', ''ssh'', ''docker''] =
     Inr (projr (get_system_data example_host example_run [''nginx'', ''ssh'', ''docker'']))"
    using example_host_returns [of example_run "[''nginx'', ''ssh'', ''docker'']"] by simp
  from get_system_data_services_order [OF built]
  have order: "length (services (projr (get_system_data example_host example_run
       [''nginx'', ''ssh'', ''docker'']))) = 3 \<and>
     map name (services (projr (get_system_data example_host example_run
       [''nginx'', ''ssh'', ''docker'']))) = [''nginx'', ''ssh'', ''docker'']"
    by simp
  have "services (projr (get_system_data example_host example_run [''nginx'', ''ssh'', ''docker''])) =
     map (get_service_status example_run) [''nginx'', ''ssh'', ''docker'']"
    using built by (rule get_system_data_services)
  with built order show ?thesis
    unfolding example_statuses by blast
qed

end
